theory Spec2Isabelle
  imports
    Complex_Main
    "HOL-Library.Char_ord"
    "HOL-Library.List_Lexorder"
    "HOL-Library.Product_Lexorder"
    "HOL-Library.Multiset"
begin

section \<open>The estimate builder: data model\<close>

text \<open>
  The estimation engine of \<^verbatim>\<open>src/Estimation/estimate_builder.py\<close> works on Python
  dictionaries. A dictionary with a fixed set of keys is a record here, each key an
  \<open>option\<close>: \<open>None\<close> is the absent key, so that \<^verbatim>\<open>d.get(k, default)\<close> is a case
  distinction on the field. Prices are Python numbers; they are exact rationals here
  (binary floating point is not modelled), and Python's \<^verbatim>\<open>round\<close>, which rounds a tie
  to the even neighbour, is \<open>py_round\<close>.
\<close>

definition py_round :: "rat \<Rightarrow> int" where
  "py_round x =
     (let f = \<lfloor>x\<rfloor>; d = x - of_int f
      in if d < 1 / 2 then f else if 1 / 2 < d then f + 1 else if even f then f else f + 1)"

text \<open>\<^verbatim>\<open>round(p / 25) * 25\<close>, the rounding to the nearest $25 used throughout.\<close>

definition round_to_25 :: "rat \<Rightarrow> rat" where
  "round_to_25 p = of_int (py_round (p / 25)) * 25"


text \<open>
  \<^verbatim>\<open>d.get(k, default)\<close> on a field, and a Python \<^verbatim>\<open>dict\<close> whose order matters as an
  association list in insertion order: \<open>dict_set\<close> overwrites the value of a present
  key in place and appends a new key at the end.
\<close>

definition get_or :: "'a option \<Rightarrow> 'a \<Rightarrow> 'a" where
  "get_or field dflt = (case field of None \<Rightarrow> dflt | Some v \<Rightarrow> v)"

fun dict_set :: "('k \<times> 'v) list \<Rightarrow> 'k \<Rightarrow> 'v \<Rightarrow> ('k \<times> 'v) list" where
  "dict_set [] k v = [(k, v)]"
| "dict_set ((k', v') # d) k v = (if k' = k then (k, v) # d else (k', v') # dict_set d k v)"

definition dict_get :: "('k \<times> 'v) list \<Rightarrow> 'k \<Rightarrow> 'v \<Rightarrow> 'v" where
  "dict_get d k dflt = get_or (map_of d k) dflt"

text \<open>
  Strings are lists of characters. \<open>lower\<close> is \<^verbatim>\<open>str.lower\<close> on ASCII letters, and
  \<open>contains s k\<close> is the substring test \<^verbatim>\<open>k in s\<close>.
\<close>

definition lower_char :: "char \<Rightarrow> char" where
  "lower_char c =
     (if CHR ''A'' \<le> c \<and> c \<le> CHR ''Z'' then char_of (of_char c + (32::nat)) else c)"

definition lower :: "string \<Rightarrow> string" where
  "lower s = map lower_char s"

fun starts_with :: "string \<Rightarrow> string \<Rightarrow> bool" where
  "starts_with s [] = True"
| "starts_with [] (k # ks) = False"
| "starts_with (c # s) (k # ks) = (c = k \<and> starts_with s ks)"

fun contains :: "string \<Rightarrow> string \<Rightarrow> bool" where
  "contains [] k = starts_with [] k"
| "contains (c # s) k = (starts_with (c # s) k \<or> contains s k)"





text \<open>
  An inspection issue. The keys are those the engine reads or writes: the raw issue of
  the findings file carries \<^verbatim>\<open>section\<close>, \<open>component\<close>, \<open>title\<close>, \<open>description\<close>,
  \<^verbatim>\<open>notes\<close>, \<open>severity\<close>, \<open>location\<close> and \<open>priority\<close>; the normalised issue built by
  \<^verbatim>\<open>main\<close> adds \<open>suggested_category\<close>. The keys \<^verbatim>\<open>section\<close> and \<^verbatim>\<open>notes\<close> are
  reserved words of Isabelle: they are the fields \<open>issue_section\<close>, \<open>issue_notes\<close> and,
  for a row, \<open>item_notes\<close>.
\<close>

record issue =
  issue_section :: "string option"
  component :: "string option"
  title :: "string option"
  description :: "string option"
  issue_notes :: "string option"
  severity :: "string option"
  suggested_category :: "string option"
  location :: "string option"
  priority :: "string option"
  priority_reason :: "string option"

text \<open>
  An estimate row. \<open>'b\<close> is the type of the value under \<^verbatim>\<open>bundled_issues\<close>: an integer
  count in the two-phase pipeline, a count or a list of issues for the rows the
  enforcement layer receives. A consolidated row additionally keeps its members under
  \<^verbatim>\<open>original_items\<close>.
\<close>

record 'b item =
  category :: "string option"
  description :: "string option"
  qty :: "rat option"
  unit_price_usd :: "rat option"
  line_total_usd :: "rat option"
  item_notes :: "string option"
  disclaimer :: "string option"
  priority :: "string option"
  bundled_issues :: "'b option"
  discount_applied :: "rat option"
  discount_justification :: "string option"
  base_price :: "rat option"
  final_price :: "rat option"
  original_issue_id :: "nat option"
  original_issue :: "issue option"
  consolidated_issue_count :: "rat option"

record 'b line_item = "'b item" +
  original_items :: "'b item list option"

section \<open>Estimate assembly: category totals and summary\<close>





section \<open>Price stabilisation and regional adjustment\<close>

















text \<open>A row as the oracle prices it: only the keys given are present.\<close>

definition priced_row :: "string \<Rightarrow> rat \<Rightarrow> int item" where
  "priced_row cat price =
     \<lparr>category = Some cat, description = Some ''Repair'', qty = Some 1,
      unit_price_usd = Some price, line_total_usd = Some price, item_notes = Some ''Work'',
      disclaimer = None, priority = Some ''MEDIUM'', bundled_issues = Some 1,
      discount_applied = None, discount_justification = None, base_price = None,
      final_price = None, original_issue_id = None, original_issue = None,
      consolidated_issue_count = None\<rparr>"

section \<open>Consolidation rules and the enforcement of the per-category cap\<close>

text \<open>
  \<^verbatim>\<open>CATEGORY_CONSOLIDATION_RULES\<close>, without the free-text rationale of each entry.
\<close>

record consolidation_rule =
  target_ratio :: rat
  max_per_item :: int
  bundling_strategy :: string

definition CATEGORY_CONSOLIDATION_RULES :: "(string \<times> consolidation_rule) list" where
  "CATEGORY_CONSOLIDATION_RULES =
     [(''ROOF'', \<lparr>target_ratio = 55 / 10, max_per_item = 8, bundling_strategy = ''aggressive''\<rparr>),
      (''ELECTRICAL'', \<lparr>target_ratio = 4, max_per_item = 5, bundling_strategy = ''moderate''\<rparr>),
      (''PLUMBING'', \<lparr>target_ratio = 35 / 10, max_per_item = 4, bundling_strategy = ''moderate''\<rparr>),
      (''HVAC'', \<lparr>target_ratio = 3, max_per_item = 3, bundling_strategy = ''moderate''\<rparr>),
      (''FOUNDATION'', \<lparr>target_ratio = 2, max_per_item = 3, bundling_strategy = ''conservative''\<rparr>),
      (''WINDOWS/DOORS'', \<lparr>target_ratio = 3, max_per_item = 4, bundling_strategy = ''moderate''\<rparr>),
      (''ATTIC'', \<lparr>target_ratio = 4, max_per_item = 5, bundling_strategy = ''moderate''\<rparr>),
      (''MISCELLANEOUS'', \<lparr>target_ratio = 3, max_per_item = 4, bundling_strategy = ''moderate''\<rparr>)]"

text \<open>
  \<^verbatim>\<open>CATEGORY_CONSOLIDATION_RULES.get(category, CATEGORY_CONSOLIDATION_RULES["MISCELLANEOUS"])\<close>
\<close>

definition rules_for :: "string \<Rightarrow> consolidation_rule" where
  "rules_for cat =
     dict_get CATEGORY_CONSOLIDATION_RULES cat
       (the (map_of CATEGORY_CONSOLIDATION_RULES ''MISCELLANEOUS''))"

text \<open>
  The value under \<^verbatim>\<open>bundled_issues\<close> of a row given to the enforcement layer: an
  integer count, the list of the issues themselves, or a value of another type.
\<close>

datatype 'a bundled = Count int | Issues "'a list" | Other_value

text \<open>\<^verbatim>\<open>math.ceil(a / b)\<close>, \<^verbatim>\<open>str(n)\<close> and the slice \<^verbatim>\<open>xs[s:e]\<close> for \<open>0 \<le> s\<close>, \<open>0 \<le> e\<close>.\<close>

definition ceil_div :: "int \<Rightarrow> int \<Rightarrow> int" where
  "ceil_div a b = \<lceil>rat_of_int a / rat_of_int b\<rceil>"

definition digit_char :: "nat \<Rightarrow> char" where
  "digit_char d = char_of (48 + d)"

function str_nat :: "nat \<Rightarrow> string" where
  "str_nat n = (if n < 10 then [digit_char n] else str_nat (n div 10) @ [digit_char (n mod 10)])"
  by pat_completeness auto
termination
  by (relation "measure id") auto

definition str_int :: "int \<Rightarrow> string" where
  "str_int n = (if n < 0 then CHR ''-'' # str_nat (nat (- n)) else str_nat (nat n))"

definition py_slice :: "'a list \<Rightarrow> int \<Rightarrow> int \<Rightarrow> 'a list" where
  "py_slice xs s e = take (nat e - nat s) (drop (nat s) xs)"

text \<open>The row built for part \<open>i\<close> (counted from 0) of a split.\<close>

definition split_item ::
  "'a bundled item \<Rightarrow> string \<Rightarrow> int \<Rightarrow> int \<Rightarrow> int \<Rightarrow> int \<Rightarrow> 'a list \<Rightarrow> 'a bundled item" where
  "split_item it cat issue_count cap num_splits i split_issues =
     \<lparr>category = Some cat,
      description =
        Some (get_or (item.description it) (cat @ '' repairs'')
              @ '' - Part '' @ str_int (i + 1) @ '' of '' @ str_int num_splits),
      qty = None,
      unit_price_usd = None,
      line_total_usd = Some (get_or (line_total_usd it) 0 / of_int num_splits),
      item_notes =
        Some (''Auto-split from over-consolidated item ('' @ str_int issue_count
              @ '' issues > '' @ str_int cap @ '' max)''),
      disclaimer = None,
      priority = Some (get_or (item.priority it) ''MEDIUM''),
      bundled_issues = Some (Issues split_issues),
      discount_applied = Some (get_or (discount_applied it) 0),
      discount_justification = Some (get_or (discount_justification it) []),
      base_price = Some (get_or (base_price it) 0 / of_int num_splits),
      final_price = Some (get_or (final_price it) 0 / of_int num_splits),
      original_issue_id = None,
      original_issue = None,
      consolidated_issue_count = None\<rparr>"

text \<open>
  The inner loop over \<^verbatim>\<open>range(num_splits)\<close>: an empty slice is skipped.
\<close>

definition split_parts ::
  "'a bundled item \<Rightarrow> string \<Rightarrow> 'a list \<Rightarrow> int \<Rightarrow> int \<Rightarrow> 'a bundled item list" where
  "split_parts it cat issues issue_count cap =
     (let num_splits = ceil_div issue_count cap;
          issues_per_split = ceil_div issue_count num_splits
      in concat (map (\<lambda>i.
           let start_idx = i * issues_per_split;
               end_idx = min ((i + 1) * issues_per_split) issue_count;
               split_issues = py_slice issues start_idx end_idx
           in if split_issues = [] then []
              else [split_item it cat issue_count cap num_splits i split_issues])
         (map int [0..<nat num_splits])))"

text \<open>The body of the outer loop of \<^verbatim>\<open>enforce_consolidation_limits\<close>, for one row.\<close>

definition enforce_item :: "'a bundled item \<Rightarrow> 'a bundled item list" where
  "enforce_item it =
     (let cat = get_or (category it) ''MISCELLANEOUS'';
          bundled = get_or (bundled_issues it) (Issues [])
      in case bundled of
           Other_value \<Rightarrow> [it]
         | _ \<Rightarrow>
           (let issue_count = (case bundled of Count n \<Rightarrow> n | Issues xs \<Rightarrow> int (length xs)
                                | Other_value \<Rightarrow> 0);
                issues = (case bundled of Issues xs \<Rightarrow> xs | _ \<Rightarrow> []);
                cap = max_per_item (rules_for cat)
            in if cap < issue_count \<and> issues \<noteq> []
               then split_parts it cat issues issue_count cap
               else [it]))"

definition enforce_consolidation_limits :: "'a bundled item list \<Rightarrow> 'a bundled item list" where
  "enforce_consolidation_limits items = concat (map enforce_item items)"








section \<open>Phase 1: individual pricing\<close>

definition CATEGORY_SEVERITY_PRICE_MATRIX :: "(string \<times> (string \<times> rat) list) list" where
  "CATEGORY_SEVERITY_PRICE_MATRIX =
     [(''PLUMBING'',
         [(''minor'', 150), (''moderate'', 400), (''major'', 800), (''critical'', 1500)]),
      (''ELECTRICAL'',
         [(''minor'', 200), (''moderate'', 500), (''major'', 1200), (''critical'', 2500)]),
      (''HVAC'',
         [(''minor'', 150), (''moderate'', 600), (''major'', 1500), (''critical'', 3500)]),
      (''ROOF'',
         [(''minor'', 300), (''moderate'', 800), (''major'', 2500), (''critical'', 8000)]),
      (''FOUNDATION'',
         [(''minor'', 400), (''moderate'', 1200), (''major'', 3500), (''critical'', 8000)]),
      (''WINDOWS/DOORS'',
         [(''minor'', 150), (''moderate'', 400), (''major'', 1000), (''critical'', 2500)]),
      (''ATTIC'',
         [(''minor'', 200), (''moderate'', 500), (''major'', 1200), (''critical'', 2500)]),
      (''MISCELLANEOUS'',
         [(''minor'', 200), (''moderate'', 500), (''major'', 1200), (''critical'', 2500)])]"

text \<open>
  \<^verbatim>\<open>create_fallback_pricing(issue)\<close>. The draw of \<^verbatim>\<open>random.uniform(0.9, 1.1)\<close> is the
  argument \<open>u\<close>.
\<close>

definition create_fallback_pricing :: "rat \<Rightarrow> 'm issue_scheme \<Rightarrow> int item" where
  "create_fallback_pricing u i =
     (let cat = get_or (suggested_category i) ''MISCELLANEOUS'';
          sev = lower (get_or (severity i) ''moderate'');
          severity_prices =
            dict_get CATEGORY_SEVERITY_PRICE_MATRIX cat
              (the (map_of CATEGORY_SEVERITY_PRICE_MATRIX ''MISCELLANEOUS''));
          base = dict_get severity_prices sev (dict_get severity_prices ''moderate'' 200);
          price = round_to_25 (base * u)
      in \<lparr>category = Some cat,
          description = Some (get_or (issue.description i) ''Repair work''),
          qty = Some 1,
          unit_price_usd = Some price,
          line_total_usd = Some price,
          item_notes = Some (''Fallback pricing based on '' @ sev @ '' severity''),
          disclaimer = None,
          priority = Some (get_or (issue.priority i) ''MEDIUM''),
          bundled_issues = Some 1,
          discount_applied = Some 0,
          discount_justification = Some ''No discount'',
          base_price = None,
          final_price = None,
          original_issue_id = None,
          original_issue = None,
          consolidated_issue_count = None\<rparr>)"

text \<open>
  What one oracle call comes to, seen from the loop of
  \<^verbatim>\<open>call_gemini_for_individual_pricing\<close>: the call or the extraction of its text raises
  (\<open>Transport_failure\<close>); \<^verbatim>\<open>json.loads\<close> raises \<^verbatim>\<open>JSONDecodeError\<close>
  (\<open>Unparseable\<close>); it returns a JSON object, read as a row (\<open>Json_object\<close>); or it
  returns a JSON value that is no object, on which the item assignment
  \<^verbatim>\<open>item['bundled_issues'] = 1\<close> raises \<^verbatim>\<open>TypeError\<close> (\<open>Json_other\<close>).
\<close>

datatype oracle_reply = Transport_failure | Unparseable | Json_object "int item" | Json_other

text \<open>
  What the function takes from outside the repository: whether the \<^verbatim>\<open>config\<close> module
  was imported, \<^verbatim>\<open>json.dumps(_, sort_keys=True)\<close> and \<^verbatim>\<open>hashlib.sha256(_).hexdigest()\<close>,
  the oracle's reply to the call made for the issue at a position, and the random
  draws.
\<close>

record environment =
  config_loaded :: bool
  json_dumps_sorted :: "issue list \<Rightarrow> string"
  sha256_hexdigest :: "string \<Rightarrow> string"
  generate_content :: "nat \<Rightarrow> issue \<Rightarrow> oracle_reply"
  uniform_draw :: "nat \<Rightarrow> rat"

definition prompt_version :: string where
  "prompt_version = ''v7.0-individual-pricing''"

definition cache_key :: "environment \<Rightarrow> issue list \<Rightarrow> string" where
  "cache_key env normalized_issues =
     take 16 (sha256_hexdigest env (json_dumps_sorted env normalized_issues @ prompt_version))"

text \<open>The cache directory: one blob \<^verbatim>\<open>{"items": ..., "tokens": ...}\<close> per key.\<close>

record cache_blob =
  blob_items :: "int item list"
  blob_tokens :: "int option"

type_synonym cache = "string \<Rightarrow> cache_blob option"

text \<open>The body of the pricing loop for the issue at position \<open>idx - 1\<close>.\<close>

definition price_issue :: "environment \<Rightarrow> nat \<Rightarrow> issue \<Rightarrow> int item" where
  "price_issue env pos i =
     (case generate_content env pos i of
        Json_object it \<Rightarrow>
          it\<lparr>bundled_issues := Some 1, original_issue_id := Some pos, original_issue := Some i\<rparr>
      | Unparseable \<Rightarrow>
          (create_fallback_pricing (uniform_draw env pos) i)
            \<lparr>bundled_issues := Some 1, original_issue_id := Some pos, original_issue := Some i\<rparr>
      | _ \<Rightarrow>
          (create_fallback_pricing (uniform_draw env pos) i)
            \<lparr>original_issue_id := Some pos, original_issue := Some i\<rparr>)"

text \<open>
  The loop, with the list \<open>priced_items\<close> it appends to and the log of the issues it
  has sent to the oracle.
\<close>

fun pricing_loop ::
  "environment \<Rightarrow> nat \<Rightarrow> issue list \<Rightarrow> int item list \<times> issue list
   \<Rightarrow> int item list \<times> issue list" where
  "pricing_loop env pos [] st = st"
| "pricing_loop env pos (i # rest) (priced_items, calls) =
     pricing_loop env (Suc pos) rest (priced_items @ [price_issue env pos i], calls @ [i])"

datatype pricing_error = RuntimeError

record pricing_run =
  returned_items :: "int item list"
  returned_tokens :: "int option"
  cache_after :: cache
  oracle_calls :: "issue list"

definition call_gemini_for_individual_pricing ::
  "environment \<Rightarrow> cache \<Rightarrow> issue list \<Rightarrow> pricing_error + pricing_run" where
  "call_gemini_for_individual_pricing env stored normalized_issues =
     (if \<not> config_loaded env then Inl RuntimeError
      else
        let key = cache_key env normalized_issues
        in case stored key of
             Some cached \<Rightarrow>
               Inr \<lparr>returned_items = blob_items cached, returned_tokens = blob_tokens cached,
                    cache_after = stored, oracle_calls = []\<rparr>
           | None \<Rightarrow>
               (let (priced_items, calls) = pricing_loop env 0 normalized_issues ([], []);
                    total_tokens = 0
                in Inr \<lparr>returned_items = priced_items, returned_tokens = Some total_tokens,
                        cache_after =
                          stored(key \<mapsto> \<lparr>blob_items = priced_items,
                                          blob_tokens = Some total_tokens\<rparr>),
                        oracle_calls = calls\<rparr>))"

text \<open>
  The row of an issue whose pricing failed: the fallback price with the reference to the
  issue.
\<close>

definition fallback_row :: "environment \<Rightarrow> nat \<Rightarrow> issue \<Rightarrow> int item" where
  "fallback_row env pos i =
     (create_fallback_pricing (uniform_draw env pos) i)
       \<lparr>original_issue_id := Some pos, original_issue := Some i\<rparr>"

section \<open>Phase 2: code-based consolidation\<close>

definition DISCLAIMER_TEMPLATES :: "(string \<times> string) list" where
  "DISCLAIMER_TEMPLATES =
     [(''PLUMBING'', ''Texas state average pricing. Local codes and materials may affect final cost.''),
      (''ELECTRICAL'', ''Based on Texas electrical code requirements and state average labor rates.''),
      (''HVAC'', ''Texas climate zone pricing. Actual cost depends on system specifications.''),
      (''ROOF'', ''Texas weather considerations included. Price varies by material and accessibility.''),
      (''FOUNDATION'', ''Texas soil conditions vary. Final pricing after engineering evaluation.''),
      (''WINDOWS/DOORS'', ''Texas building code compliant installation at state average rates.''),
      (''ATTIC'', ''Texas energy code requirements. Pricing includes state rebate eligibility.''),
      (''MISCELLANEOUS'', ''Based on current Texas state contractor rates.''),
      (''GENERAL'', ''Estimate reflects Texas state market conditions as of 2024-2025.'')]"

text \<open>
  The two text helpers of \<^verbatim>\<open>create_consolidated_line_item\<close>,
  \<^verbatim>\<open>_create_meaningful_description(items, category)\<close> and
  \<^verbatim>\<open>_create_detailed_notes_from_items(items)\<close>, only format strings; they are
  passed in, so that every result below holds whatever text they produce.
\<close>

record 'b text_synthesis =
  meaningful_description :: "'b item list \<Rightarrow> string \<Rightarrow> string"
  detailed_notes :: "'b item list \<Rightarrow> string"

text \<open>
  \<^verbatim>\<open>min(item_priorities, key=lambda p: priorities.index(p) if p in priorities else 2)\<close>
  returns the first element of least key, and raises \<^verbatim>\<open>ValueError\<close> on an empty list.
\<close>

definition priority_key :: "string \<Rightarrow> nat" where
  "priority_key p =
     (if p = ''CRITICAL'' then 0 else if p = ''HIGH'' then 1 else if p = ''MEDIUM'' then 2
      else if p = ''LOW'' then 3 else 2)"

fun first_min :: "('a \<Rightarrow> nat) \<Rightarrow> 'a \<Rightarrow> 'a list \<Rightarrow> 'a" where
  "first_min key best [] = best"
| "first_min key best (x # xs) = first_min key (if key x < key best then x else best) xs"

datatype consolidation_error = ValueError

definition create_consolidated_line_item ::
  "int text_synthesis \<Rightarrow> int item list \<Rightarrow> string \<Rightarrow> int \<Rightarrow> consolidation_error + int line_item"
  where
  "create_consolidated_line_item syn items cat bundle_num =
     (let total_price = sum_list (map (\<lambda>it. get_or (unit_price_usd it) 0) items);
          discount_pct = (if 3 \<le> length items then 10 else if length items = 2 then 5 else 0);
          discounted_price = round_to_25 (total_price * (1 - discount_pct / 100));
          item_priorities = map (\<lambda>it. get_or (item.priority it) ''MEDIUM'') items
      in case item_priorities of
           [] \<Rightarrow> Inl ValueError
         | p # ps \<Rightarrow>
           Inr \<lparr>category = Some cat,
                description = Some (meaningful_description syn items cat),
                qty = Some 1,
                unit_price_usd = Some discounted_price,
                line_total_usd = Some discounted_price,
                item_notes = Some (detailed_notes syn items),
                disclaimer = Some (dict_get DISCLAIMER_TEMPLATES cat []),
                priority = Some (first_min priority_key p ps),
                bundled_issues = Some (int (length items)),
                discount_applied = Some discount_pct,
                discount_justification =
                  Some (if 0 < discount_pct
                        then ''Same category, '' @ str_int (int (length items))
                             @ '' items bundled for efficiency''
                        else ''No discount''),
                base_price = None,
                final_price = None,
                original_issue_id = None,
                original_issue = None,
                consolidated_issue_count = None,
                original_items = Some items\<rparr>)"

text \<open>A priced row kept as it is: the same keys, and no \<^verbatim>\<open>original_items\<close>.\<close>

definition as_line_item :: "'b item \<Rightarrow> 'b line_item" where
  "as_line_item it =
     \<lparr>category = category it, description = item.description it, qty = qty it,
      unit_price_usd = unit_price_usd it, line_total_usd = line_total_usd it,
      item_notes = item_notes it, disclaimer = disclaimer it, priority = item.priority it,
      bundled_issues = bundled_issues it, discount_applied = discount_applied it,
      discount_justification = discount_justification it, base_price = base_price it,
      final_price = final_price it, original_issue_id = original_issue_id it,
      original_issue = original_issue it,
      consolidated_issue_count = consolidated_issue_count it, original_items = None\<rparr>"

text \<open>The first loop of \<^verbatim>\<open>code_based_consolidation\<close>: the rows by category.\<close>

definition add_to_category ::
  "(string \<times> 'b item list) list \<Rightarrow> 'b item \<Rightarrow> (string \<times> 'b item list) list" where
  "add_to_category by_category it =
     (let cat = get_or (category it) ''MISCELLANEOUS'';
          d = (if cat \<notin> fst ` set by_category then dict_set by_category cat [] else by_category)
      in dict_set d cat (dict_get d cat [] @ [it]))"

definition group_by_category :: "'b item list \<Rightarrow> (string \<times> 'b item list) list" where
  "group_by_category priced_items = foldl add_to_category [] priced_items"

text \<open>
  The inner loop over the rows of one category. The state is the output list, the
  open bundle, its issue count and the bundle number.
\<close>

fun bundle_loop ::
  "int text_synthesis \<Rightarrow> string \<Rightarrow> int \<Rightarrow> int item list
   \<Rightarrow> int line_item list \<times> int item list \<times> int \<times> int
   \<Rightarrow> consolidation_error + (int line_item list \<times> int item list \<times> int \<times> int)" where
  "bundle_loop syn cat max_issues_per_item [] st = Inr st"
| "bundle_loop syn cat max_issues_per_item (it # rest)
     (consolidated_items, current_bundle, current_count, bundle_num) =
     (let item_count = get_or (bundled_issues it) 1
      in if max_issues_per_item < current_count + item_count \<and> current_bundle \<noteq> [] then
           (case create_consolidated_line_item syn current_bundle cat bundle_num of
              Inl e \<Rightarrow> Inl e
            | Inr consolidated_item \<Rightarrow>
                bundle_loop syn cat max_issues_per_item rest
                  (consolidated_items @ [consolidated_item], [it], item_count, bundle_num + 1))
         else
           bundle_loop syn cat max_issues_per_item rest
             (consolidated_items, current_bundle @ [it], current_count + item_count, bundle_num))"

text \<open>The body of the loop over the categories.\<close>

definition consolidate_category ::
  "int text_synthesis \<Rightarrow> int line_item list \<Rightarrow> string \<times> int item list
   \<Rightarrow> consolidation_error + int line_item list" where
  "consolidate_category syn consolidated_items grp =
     (let cat = fst grp;
          cat_items = snd grp;
          max_issues_per_item = max_per_item (rules_for cat)
      in case cat_items of
           [only] \<Rightarrow> Inr (consolidated_items @ [as_line_item only])
         | _ \<Rightarrow>
           (case bundle_loop syn cat max_issues_per_item cat_items (consolidated_items, [], 0, 1) of
              Inl e \<Rightarrow> Inl e
            | Inr (out, current_bundle, current_count, bundle_num) \<Rightarrow>
                if current_bundle \<noteq> [] then
                  (case create_consolidated_line_item syn current_bundle cat bundle_num of
                     Inl e \<Rightarrow> Inl e
                   | Inr consolidated_item \<Rightarrow> Inr (out @ [consolidated_item]))
                else Inr out))"

fun consolidate_categories ::
  "int text_synthesis \<Rightarrow> int line_item list \<Rightarrow> (string \<times> int item list) list
   \<Rightarrow> consolidation_error + int line_item list" where
  "consolidate_categories syn consolidated_items [] = Inr consolidated_items"
| "consolidate_categories syn consolidated_items (grp # grps) =
     (case consolidate_category syn consolidated_items grp of
        Inl e \<Rightarrow> Inl e
      | Inr out \<Rightarrow> consolidate_categories syn out grps)"

definition code_based_consolidation ::
  "int text_synthesis \<Rightarrow> int item list \<Rightarrow> 'm issue_scheme list
   \<Rightarrow> consolidation_error + int line_item list" where
  "code_based_consolidation syn priced_items normalized_issues =
     consolidate_categories syn [] (group_by_category priced_items)"








text \<open>
  The row \<^verbatim>\<open>create_consolidated_line_item\<close> returns for a bundle (the bundle number
  does not enter it), the rows emitted for one group, and the category a row is
  grouped under.
\<close>

definition consolidated :: "int text_synthesis \<Rightarrow> string \<Rightarrow> int item list \<Rightarrow> int line_item" where
  "consolidated syn cat members = projr (create_consolidated_line_item syn members cat 1)"



text \<open>Example inputs: a text synthesis, and priced rows.\<close>

definition plain_text :: "int text_synthesis" where
  "plain_text =
     \<lparr>meaningful_description = (\<lambda>items cat. cat @ '' Repairs''),
      detailed_notes = (\<lambda>items. ''Includes related repairs'')\<rparr>"

section \<open>Consolidation validation and the quality score\<close>


text \<open>
  \<^verbatim>\<open>validate_category_consolidation\<close>. Of the result only the keys the scorer and the
  diagnostics compute with are kept; \<^verbatim>\<open>get_consolidation_guidance\<close> contributes the
  target ratio of the upper-cased, stripped category. A ratio over zero items is
  infinite and never acceptable.
\<close>

record category_validation =
  validated_category :: string
  is_acceptable :: bool
  issue_count :: nat
  actual_items :: nat
  validated_target_ratio :: rat



























section \<open>Priority classification\<close>

definition safety_keywords :: "string list" where
  "safety_keywords =
     [''exposed wiring'', ''live wire'', ''electrical fire'', ''shock hazard'',
      ''short circuit'', ''electrical hazard'', ''damaged wire'', ''bare wire'',
      ''overloaded'', ''arcing'', ''sparking'',
      ''active leak'', ''water damage'', ''mold'', ''moisture intrusion'',
      ''wet'', ''water intrusion'', ''flooding'', ''water pooling'',
      ''ice dam'', ''moisture problem'',
      ''foundation crack'', ''wall damage'', ''floor settling'', ''compromised'',
      ''structural damage'', ''foundation problem'', ''crack'', ''subsidence'',
      ''bowing'', ''leaning'', ''separation'',
      ''gas leak'', ''carbon monoxide'', ''unsafe appliance'', ''gas odor'',
      ''ventilation problem'', ''blocked vent'', ''dangerous'']"

definition maintenance_keywords :: "string list" where
  "maintenance_keywords =
     [''worn knob'', ''worn handle'', ''worn hinge'', ''worn finish'',
      ''dirty filter'', ''low refrigerant'', ''low battery'',
      ''paint'', ''staining'', ''discoloration'', ''worn'',
      ''adjustment'', ''tightening'', ''caulking'', ''weatherstrip'',
      ''minor'', ''routine'', ''maintenance'', ''preventive'',
      ''replace filter'', ''inspection only'']"

definition full_text :: "'m issue_scheme \<Rightarrow> string" where
  "full_text i =
     (let description =
            lower (get_or (issue.description i) [] @ '' '' @ get_or (issue_notes i) []);
          title = lower (get_or (title i) [])
      in title @ '' '' @ description)"

definition is_safety :: "'m issue_scheme \<Rightarrow> bool" where
  "is_safety i = list_ex (contains (full_text i)) safety_keywords"

definition is_maintenance :: "'m issue_scheme \<Rightarrow> bool" where
  "is_maintenance i = list_ex (contains (full_text i)) maintenance_keywords"

text \<open>The body of the loop of \<^verbatim>\<open>fix_priority_classification\<close>, and the loop.\<close>

definition fix_priority :: "'m issue_scheme \<Rightarrow> 'm issue_scheme" where
  "fix_priority i =
     (if is_safety i then
        i\<lparr>issue.priority := Some ''HIGH'',
          priority_reason := Some ''Safety/structural hazard detected''\<rparr>
      else if is_maintenance i then
        i\<lparr>issue.priority := Some ''LOW'',
          priority_reason := Some ''Routine maintenance, not urgent''\<rparr>
      else
        i\<lparr>issue.priority := Some ''MODERATE'',
          priority_reason := Some ''Standard repair needed''\<rparr>)"

definition fix_priority_classification :: "'m issue_scheme list \<Rightarrow> 'm issue_scheme list" where
  "fix_priority_classification issues = map fix_priority issues"

text \<open>An issue of the findings file, with the keys the extraction step writes.\<close>

definition raw_issue :: "string \<Rightarrow> string \<Rightarrow> string \<Rightarrow> string \<Rightarrow> issue" where
  "raw_issue sec ttl descr prio =
     \<lparr>issue_section = Some sec, component = Some [], title = Some ttl,
      description = Some descr, issue_notes = None, severity = Some ''moderate'',
      suggested_category = None, location = Some [], priority = Some prio,
      priority_reason = None\<rparr>"



text \<open>Example issues for Phase 1.\<close>

definition example_issues :: "issue list" where
  "example_issues =
     [(raw_issue ''Plumbing'' ''Leaking trap'' ''Trap under the sink leaks'' ''HIGH'')
        \<lparr>suggested_category := Some ''PLUMBING'', severity := Some ''minor''\<rparr>,
      (raw_issue ''Roof'' ''Missing shingles'' ''Shingles missing at the ridge'' ''HIGH'')
        \<lparr>suggested_category := Some ''ROOF'', severity := Some ''Major''\<rparr>,
      (raw_issue ''Plumbing'' ''Slow drain'' ''Tub drains slowly'' ''LOW'')
        \<lparr>suggested_category := Some ''PLUMBING'', severity := Some ''moderate''\<rparr>]"

text \<open>
  An environment whose oracle prices the first issue, fails on the second and answers
  the third with text that is no JSON; and one whose oracle always fails.
\<close>

definition example_env :: environment where
  "example_env =
     \<lparr>config_loaded = True,
      json_dumps_sorted = (\<lambda>issues. concat (map (\<lambda>i. get_or (title i) []) issues)),
      sha256_hexdigest = (\<lambda>s. s),
      generate_content =
        (\<lambda>pos i. if pos = 0 then Json_object ((priced_row ''PLUMBING'' 175)\<lparr>bundled_issues := Some 4\<rparr>)
                  else if pos = 1 then Transport_failure else Unparseable),
      uniform_draw = (\<lambda>pos. 1)\<rparr>"

definition failing_env :: environment where
  "failing_env = example_env\<lparr>generate_content := (\<lambda>pos i. Transport_failure)\<rparr>"

text \<open>Example rows for the consolidation.\<close>

definition three_plumbing_rows :: "int item list" where
  "three_plumbing_rows =
     [priced_row ''PLUMBING'' 150, priced_row ''PLUMBING'' 150, priced_row ''PLUMBING'' 400]"


section \<open>Properties\<close>

subsection \<open>Rounding\<close>



subsection \<open>Price stabilisation\<close>








subsection \<open>Enforcement of the cap\<close>

lemma cap_pos: "0 < max_per_item (rules_for c)"
  by (simp add: rules_for_def dict_get_def get_or_def CATEGORY_CONSOLIDATION_RULES_def)

lemma ceil_div_upper: "0 < b \<Longrightarrow> a \<le> ceil_div a b * b"
proof -
  assume b: "0 < b"
  have "rat_of_int a / rat_of_int b \<le> of_int (ceil_div a b)"
    by (simp add: ceil_div_def)
  then have "rat_of_int a \<le> of_int (ceil_div a b) * rat_of_int b"
    using b by (simp add: pos_divide_le_eq)
  then have "rat_of_int a \<le> rat_of_int (ceil_div a b * b)" by simp
  then show ?thesis by (simp only: of_int_le_iff)
qed

lemma ceil_div_lower: "0 < b \<Longrightarrow> (ceil_div a b - 1) * b < a"
proof -
  assume b: "0 < b"
  have "of_int (ceil_div a b) - 1 < rat_of_int a / rat_of_int b"
    unfolding ceil_div_def by linarith
  then have "(of_int (ceil_div a b) - 1) * rat_of_int b < rat_of_int a"
    using b by (simp add: pos_less_divide_eq)
  then have "rat_of_int ((ceil_div a b - 1) * b) < rat_of_int a" by simp
  then show ?thesis by (simp only: of_int_less_iff)
qed

lemma ceil_div_le: "0 < b \<Longrightarrow> a \<le> k * b \<Longrightarrow> ceil_div a b \<le> k"
proof -
  assume b: "0 < b" and le: "a \<le> k * b"
  have "rat_of_int a \<le> rat_of_int (k * b)" using le by (simp only: of_int_le_iff)
  then have "rat_of_int a / rat_of_int b \<le> of_int k"
    using b by (simp add: pos_divide_le_eq)
  then show ?thesis by (simp add: ceil_div_def ceiling_le_iff)
qed

lemma ceil_div_pos: "0 < b \<Longrightarrow> 0 < a \<Longrightarrow> 0 < ceil_div a b"
  by (simp add: ceil_div_def)

lemma split_arith:
  assumes "0 < m" "m < c"
  defines "n \<equiv> ceil_div c m"
  defines "per \<equiv> ceil_div c n"
  shows "0 < n" "0 < per" "per \<le> m" "c \<le> n * per" "(n - 1) * per < c"
proof -
  have c: "0 < c" using assms by simp
  show n: "0 < n" unfolding n_def using assms c by (simp add: ceil_div_pos)
  show per: "0 < per" unfolding per_def using n c by (simp add: ceil_div_pos)
  have "c \<le> n * m" unfolding n_def using assms by (simp add: ceil_div_upper)
  then have "c \<le> m * n" by (simp add: mult.commute)
  then show pm: "per \<le> m" unfolding per_def using n by (simp add: ceil_div_le)
  have "c \<le> per * n" unfolding per_def using n by (simp add: ceil_div_upper)
  then show "c \<le> n * per" by (simp add: mult.commute)
  have "(n - 1) * m < c" unfolding n_def using assms by (simp add: ceil_div_lower)
  moreover have "(n - 1) * per \<le> (n - 1) * m"
    using n pm by (simp add: mult_left_mono)
  ultimately show "(n - 1) * per < c" by linarith
qed


lemma take_min_length: "take (min a (length xs) - s) (drop s xs) = take (a - s) (drop s xs)"
  by (cases "a \<le> length xs") (simp_all add: min_def)

lemma py_slice_chunk:
  assumes "0 < P"
  shows "py_slice xs (int i * P) (min ((int i + 1) * P) (int (length xs)))
           = take (nat P) (drop (i * nat P) xs)"
proof -
  have s: "nat (int i * P) = i * nat P"
    using assms by (simp add: nat_mult_distrib)
  have "nat (min ((int i + 1) * P) (int (length xs))) = min (nat ((int i + 1) * P)) (length xs)"
    by (simp add: min_def) linarith
  moreover have "nat ((int i + 1) * P) = (i + 1) * nat P"
    using assms by (simp add: nat_mult_distrib nat_add_distrib)
  ultimately have e: "nat (min ((int i + 1) * P) (int (length xs))) = min ((i + 1) * nat P) (length xs)"
    by simp
  show ?thesis
    unfolding py_slice_def s e take_min_length by simp
qed

lemma split_parts_eq:
  assumes m: "0 < m" and over: "m < int (length xs)"
  defines "n \<equiv> ceil_div (int (length xs)) m"
  defines "P \<equiv> ceil_div (int (length xs)) n"
  shows "split_parts it cat xs (int (length xs)) m =
           map (\<lambda>i. split_item it cat (int (length xs)) m n (int i)
                      (take (nat P) (drop (i * nat P) xs)))
               [0..<nat n]"
proof -
  have ar: "0 < n" "0 < P" "P \<le> m" "int (length xs) \<le> n * P" "(n - 1) * P < int (length xs)"
    using split_arith [OF m over] unfolding n_def P_def by simp_all
  have nonempty: "i * nat P < length xs" if "i < nat n" for i
  proof -
    have "int i \<le> n - 1" using that by linarith
    then have "int i * P \<le> (n - 1) * P" using ar(2) by (simp add: mult_right_mono)
    then have "int i * P < int (length xs)" using ar(5) by linarith
    then have "int (i * nat P) < int (length xs)" using ar(2) by simp
    then show "i * nat P < length xs" by linarith
  qed
  have step: "concat (map (\<lambda>i. if take (nat P) (drop (i * nat P) xs) = [] then []
                else [f i (take (nat P) (drop (i * nat P) xs))]) [0..<k])
        = map (\<lambda>i. f i (take (nat P) (drop (i * nat P) xs))) [0..<k]"
    if "k \<le> nat n" for k and f :: "nat \<Rightarrow> 'a list \<Rightarrow> 'b"
    using that ar(2) by (induction k) (simp_all add: nonempty not_le)
  have "split_parts it cat xs (int (length xs)) m =
      concat (map (\<lambda>i. if take (nat P) (drop (i * nat P) xs) = [] then []
                else [split_item it cat (int (length xs)) m n (int i)
                        (take (nat P) (drop (i * nat P) xs))]) [0..<nat n])"
    unfolding split_parts_def Let_def n_def [symmetric] P_def [symmetric]
    by (simp only: map_map comp_def py_slice_chunk [OF ar(2)])
  also have "\<dots> = map (\<lambda>i. split_item it cat (int (length xs)) m n (int i)
                      (take (nat P) (drop (i * nat P) xs))) [0..<nat n]"
    by (rule step) simp
  finally show ?thesis .
qed

lemma enforce_item_split_item:
  assumes "int (length s) \<le> max_per_item (rules_for cat)"
  shows "enforce_item (split_item it cat c m n i s) = [split_item it cat c m n i s]"
  using assms by (simp add: enforce_item_def split_item_def get_or_def Let_def)

lemma enforce_item_Issues:
  assumes "bundled_issues it = Some (Issues xs)"
  shows "enforce_item it =
           (if max_per_item (rules_for (get_or (category it) ''MISCELLANEOUS'')) < int (length xs)
            then split_parts it (get_or (category it) ''MISCELLANEOUS'') xs (int (length xs))
                   (max_per_item (rules_for (get_or (category it) ''MISCELLANEOUS'')))
            else [it])"
proof -
  have "0 < max_per_item (rules_for (get_or (category it) ''MISCELLANEOUS''))"
    by (rule cap_pos)
  then show ?thesis
    using assms by (auto simp add: enforce_item_def Let_def get_or_def [of "Some x" for x])
qed

lemma enforce_item_not_list:
  assumes "\<And>xs. bundled_issues it \<noteq> Some (Issues xs)"
  shows "enforce_item it = [it]"
proof (cases "bundled_issues it")
  case None
  then show ?thesis by (simp add: enforce_item_def Let_def get_or_def)
next
  case (Some b)
  with assms show ?thesis
    by (cases b) (auto simp add: enforce_item_def Let_def get_or_def)
qed

lemma enforce_item_fixed:
  assumes "p \<in> set (enforce_item it)"
  shows "enforce_item p = [p]"
proof (cases "\<exists>xs. bundled_issues it = Some (Issues xs)")
  case False
  then have "enforce_item it = [it]" by (simp add: enforce_item_not_list)
  with assms show ?thesis by simp
next
  case True
  then obtain xs where xs: "bundled_issues it = Some (Issues xs)" by blast
  define cat where "cat = get_or (category it) ''MISCELLANEOUS''"
  define m where "m = max_per_item (rules_for cat)"
  have m: "0 < m" unfolding m_def by (rule cap_pos)
  show ?thesis
  proof (cases "m < int (length xs)")
    case False
    then have "enforce_item it = [it]"
      using xs by (simp add: enforce_item_Issues cat_def m_def)
    with assms show ?thesis by simp
  next
    case over: True
    define n where "n = ceil_div (int (length xs)) m"
    define P where "P = ceil_div (int (length xs)) n"
    have P: "P \<le> m" using split_arith(3) [OF m over] unfolding P_def n_def .
    have "enforce_item it = split_parts it cat xs (int (length xs)) m"
      using xs over by (simp add: enforce_item_Issues cat_def m_def)
    also have "\<dots> = map (\<lambda>i. split_item it cat (int (length xs)) m n (int i)
                      (take (nat P) (drop (i * nat P) xs))) [0..<nat n]"
      unfolding n_def P_def by (rule split_parts_eq [OF m over])
    finally obtain i where
      p: "p = split_item it cat (int (length xs)) m n (int i) (take (nat P) (drop (i * nat P) xs))"
      using assms by auto
    have "length (take (nat P) (drop (i * nat P) xs)) \<le> nat P"
      by simp
    then have "int (length (take (nat P) (drop (i * nat P) xs))) \<le> m"
      using P m by linarith
    then show ?thesis unfolding p m_def by (rule enforce_item_split_item)
  qed
qed

lemma concat_map_fixed:
  assumes "\<And>p. p \<in> set ps \<Longrightarrow> f p = [p]"
  shows "concat (map f ps) = ps"
  using assms by (induction ps) simp_all

text \<open>
  C4. The enforcement layer is idempotent: for every list of rows, applying it to its own
  output gives that output again, because every row it emits (a row it kept or a part
  of a split) is a row it leaves alone.
\<close>

theorem enforce_consolidation_limits_idempotent:
  "enforce_consolidation_limits (enforce_consolidation_limits items)
     = enforce_consolidation_limits items"
proof -
  have "concat (map enforce_item (enforce_item it)) = enforce_item it" for it :: "'a bundled item"
    by (rule concat_map_fixed) (rule enforce_item_fixed)
  then show ?thesis
    unfolding enforce_consolidation_limits_def
    by (induction items) simp_all
qed








subsection \<open>Phase 1 and its cache\<close>

lemma pricing_loop_eq:
  "pricing_loop env pos issues (acc, calls)
     = (acc @ map (\<lambda>(k, i). price_issue env k i) (enumerate pos issues), calls @ issues)"
  by (induction issues arbitrary: pos acc calls) simp_all

lemma price_issue_cases:
  "price_issue env pos i =
     (case generate_content env pos i of
        Json_object it \<Rightarrow>
          it\<lparr>bundled_issues := Some 1, original_issue_id := Some pos, original_issue := Some i\<rparr>
      | _ \<Rightarrow> fallback_row env pos i)"
  by (cases "generate_content env pos i")
     (simp_all add: price_issue_def fallback_row_def create_fallback_pricing_def Let_def)

lemma price_issue_fields:
  "bundled_issues (price_issue env pos i) = Some 1"
  "original_issue (price_issue env pos i) = Some i"
  "original_issue_id (price_issue env pos i) = Some pos"
  by (cases "generate_content env pos i";
      simp add: price_issue_def create_fallback_pricing_def Let_def)+

lemma priced_rows_fields:
  "map original_issue (map (\<lambda>(k, i). price_issue env k i) (enumerate pos issues)) = map Some issues"
  "map original_issue_id (map (\<lambda>(k, i). price_issue env k i) (enumerate pos issues))
     = map Some [pos..<pos + length issues]"
  "list_all (\<lambda>row. bundled_issues row = Some 1)
     (map (\<lambda>(k, i). price_issue env k i) (enumerate pos issues))"
proof -
  show "map original_issue (map (\<lambda>(k, i). price_issue env k i) (enumerate pos issues)) = map Some issues"
    by (induction issues arbitrary: pos) (simp_all add: price_issue_fields)
  show "map original_issue_id (map (\<lambda>(k, i). price_issue env k i) (enumerate pos issues))
     = map Some [pos..<pos + length issues]"
    by (induction issues arbitrary: pos) (simp_all add: price_issue_fields upt_rec)
  show "list_all (\<lambda>row. bundled_issues row = Some 1)
     (map (\<lambda>(k, i). price_issue env k i) (enumerate pos issues))"
    by (induction issues arbitrary: pos) (simp_all add: price_issue_fields)
qed

text \<open>
  C1. With the configuration loaded and no cache entry for the issue list, Phase 1
  returns one row per issue, in input order: the row at position \<open>k\<close> refers back to
  the issue at position \<open>k\<close> and has \<open>bundled_issues = 1\<close>. It is the oracle's row when
  the oracle returned a JSON object, and otherwise (the call raised, the text was no
  JSON, or the JSON was no object) the fallback row of \<^verbatim>\<open>create_fallback_pricing\<close> for
  that issue alone; the loop goes on to the next issue. Each issue is sent to the oracle
  once. (With a cache entry the stored rows are returned instead: see C8.)
\<close>

theorem individual_pricing_one_row_per_issue:
  assumes "config_loaded env" and "stored (cache_key env normalized_issues) = None"
  shows "\<exists>run. call_gemini_for_individual_pricing env stored normalized_issues = Inr run
     \<and> length (returned_items run) = length normalized_issues
     \<and> map original_issue (returned_items run) = map Some normalized_issues
     \<and> map original_issue_id (returned_items run) = map Some [0..<length normalized_issues]
     \<and> list_all (\<lambda>row. bundled_issues row = Some 1) (returned_items run)
     \<and> returned_items run =
         map (\<lambda>(pos, i).
                case generate_content env pos i of
                  Json_object it \<Rightarrow>
                    it\<lparr>bundled_issues := Some 1, original_issue_id := Some pos,
                       original_issue := Some i\<rparr>
                | _ \<Rightarrow> fallback_row env pos i)
             (enumerate 0 normalized_issues)
     \<and> oracle_calls run = normalized_issues"
proof -
  have "(\<lambda>(pos, i). price_issue env pos i) =
        (\<lambda>(pos, i). case generate_content env pos i of
                  Json_object it \<Rightarrow>
                    it\<lparr>bundled_issues := Some 1, original_issue_id := Some pos,
                       original_issue := Some i\<rparr>
                | _ \<Rightarrow> fallback_row env pos i)"
    by (simp add: fun_eq_iff price_issue_cases)
  then show ?thesis
    using assms priced_rows_fields [of env 0 normalized_issues]
    by (simp add: call_gemini_for_individual_pricing_def pricing_loop_eq Let_def)
qed

text \<open>
  C8. The fingerprint is the first 16 characters of the SHA-256 hex digest of the
  sorted-key JSON of the issue list followed by the prompt version, so two runs that
  serialise and hash alike compute the same fingerprint whatever their oracles do. A run
  whose fingerprint is in the cache returns the stored rows and tokens, leaves the cache
  as it is and makes no oracle call; and a run after any successful run on the same
  issue list returns that run's rows without an oracle call.
\<close>

theorem cached_pricing_is_replayed:
  assumes "config_loaded env" and "config_loaded env'"
    and "json_dumps_sorted env' = json_dumps_sorted env"
    and "sha256_hexdigest env' = sha256_hexdigest env"
  shows "cache_key env normalized_issues =
           take 16 (sha256_hexdigest env
                      (json_dumps_sorted env normalized_issues @ ''v7.0-individual-pricing''))
     \<and> cache_key env' normalized_issues = cache_key env normalized_issues
     \<and> (stored (cache_key env normalized_issues) = Some cached \<longrightarrow>
          call_gemini_for_individual_pricing env stored normalized_issues =
            Inr \<lparr>returned_items = blob_items cached, returned_tokens = blob_tokens cached,
                 cache_after = stored, oracle_calls = []\<rparr>)
     \<and> (\<forall>run. call_gemini_for_individual_pricing env stored normalized_issues = Inr run \<longrightarrow>
          call_gemini_for_individual_pricing env' (cache_after run) normalized_issues =
            Inr \<lparr>returned_items = returned_items run, returned_tokens = returned_tokens run,
                 cache_after = cache_after run, oracle_calls = []\<rparr>)"
proof -
  have k: "cache_key env' normalized_issues = cache_key env normalized_issues"
    using assms by (simp add: cache_key_def)
  show ?thesis
  proof (cases "stored (cache_key env normalized_issues)")
    case None
    with assms k show ?thesis
      by (auto simp add: call_gemini_for_individual_pricing_def Let_def cache_key_def
          prompt_version_def split: prod.splits)
  next
    case (Some b)
    with assms k show ?thesis
      by (auto simp add: call_gemini_for_individual_pricing_def Let_def cache_key_def
          prompt_version_def)
  qed
qed

text \<open>
  The hypotheses of C1 at a concrete run on an empty cache: the oracle prices the first
  of three issues and fails on the other two, which get their fallback prices.
\<close>

theorem individual_pricing_one_row_per_issue_witness:
  "config_loaded example_env
   \<and> Map.empty (cache_key example_env example_issues) = (None :: cache_blob option)
   \<and> (\<exists>run. call_gemini_for_individual_pricing example_env Map.empty example_issues = Inr run
        \<and> length (returned_items run) = length example_issues
        \<and> map original_issue (returned_items run) = map Some example_issues
        \<and> list_all (\<lambda>row. bundled_issues row = Some 1) (returned_items run)
        \<and> map unit_price_usd (returned_items run) = [Some 175, Some 2500, Some 400])"
proof -
  have h1: "config_loaded example_env" by (simp add: example_env_def)
  have h2: "Map.empty (cache_key example_env example_issues) = (None :: cache_blob option)" by simp
  from individual_pricing_one_row_per_issue [OF h1 h2]
  obtain run where run:
    "call_gemini_for_individual_pricing example_env Map.empty example_issues = Inr run"
    "length (returned_items run) = length example_issues"
    "map original_issue (returned_items run) = map Some example_issues"
    "list_all (\<lambda>row. bundled_issues row = Some 1) (returned_items run)"
    by blast
  have "map unit_price_usd
          (case call_gemini_for_individual_pricing example_env Map.empty example_issues of
             Inl e \<Rightarrow> [] | Inr r \<Rightarrow> returned_items r) = [Some 175, Some 2500, Some 400]"
    by code_simp
  with run(1) have p: "map unit_price_usd (returned_items run) = [Some 175, Some 2500, Some 400]"
    by simp
  show ?thesis
    by (intro conjI exI [of _ run]) (fact h1 h2 run p)+
qed

text \<open>
  The hypotheses of C8 at concrete runs: a first run fills the cache, and a second run
  returns its rows, also when the oracle has meanwhile stopped answering.
\<close>

theorem cached_pricing_is_replayed_witness:
  "config_loaded example_env \<and> config_loaded failing_env
   \<and> json_dumps_sorted failing_env = json_dumps_sorted example_env
   \<and> sha256_hexdigest failing_env = sha256_hexdigest example_env
   \<and> cache_key failing_env example_issues = cache_key example_env example_issues
   \<and> (\<exists>run. call_gemini_for_individual_pricing example_env Map.empty example_issues = Inr run
        \<and> cache_after run (cache_key example_env example_issues)
            = Some \<lparr>blob_items = returned_items run, blob_tokens = Some 0\<rparr>
        \<and> call_gemini_for_individual_pricing example_env (cache_after run) example_issues =
            Inr \<lparr>returned_items = returned_items run, returned_tokens = Some 0,
                 cache_after = cache_after run, oracle_calls = []\<rparr>
        \<and> call_gemini_for_individual_pricing failing_env (cache_after run) example_issues =
            Inr \<lparr>returned_items = returned_items run, returned_tokens = returned_tokens run,
                 cache_after = cache_after run, oracle_calls = []\<rparr>)"
proof -
  have h1: "config_loaded example_env" by (simp add: example_env_def)
  have h2: "config_loaded failing_env" by (simp add: failing_env_def example_env_def)
  have h3: "json_dumps_sorted failing_env = json_dumps_sorted example_env"
    by (simp add: failing_env_def)
  have h4: "sha256_hexdigest failing_env = sha256_hexdigest example_env"
    by (simp add: failing_env_def)
  obtain run where run:
    "call_gemini_for_individual_pricing example_env Map.empty example_issues = Inr run"
    "cache_after run (cache_key example_env example_issues)
       = Some \<lparr>blob_items = returned_items run, blob_tokens = Some 0\<rparr>"
    using h1 by (simp add: call_gemini_for_individual_pricing_def Let_def pricing_loop_eq)
  note thm1 = cached_pricing_is_replayed [OF h1 h2 h3 h4, of example_issues Map.empty]
  note thm2 = cached_pricing_is_replayed [OF h1 h2 h3 h4, of example_issues "cache_after run"
      "\<lparr>blob_items = returned_items run, blob_tokens = Some 0\<rparr>"]
  have a: "cache_key failing_env example_issues = cache_key example_env example_issues"
    by (rule thm1 [THEN conjunct2, THEN conjunct1])
  have b: "call_gemini_for_individual_pricing failing_env (cache_after run) example_issues =
            Inr \<lparr>returned_items = returned_items run, returned_tokens = returned_tokens run,
                 cache_after = cache_after run, oracle_calls = []\<rparr>"
    by (rule thm1 [THEN conjunct2, THEN conjunct2, THEN conjunct2, THEN spec, THEN mp, OF run(1)])
  have c: "call_gemini_for_individual_pricing example_env (cache_after run) example_issues =
            Inr \<lparr>returned_items = returned_items run, returned_tokens = Some 0,
                 cache_after = cache_after run, oracle_calls = []\<rparr>"
    using thm2 [THEN conjunct2, THEN conjunct2, THEN conjunct1, THEN mp, OF run(2)] by simp
  show ?thesis
    by (intro conjI exI [of _ run]) (fact h1 h2 h3 h4 a b c run)+
qed

subsection \<open>Consolidation\<close>


































text \<open>
  The scenario of the specification: three PLUMBING rows at $150, $150 and $400 sum to
  $700; 10% off gives $630, which rounds to $625.
\<close>

lemma code_based_consolidation_scenario:
  "(case code_based_consolidation plain_text three_plumbing_rows ([] :: issue list) of
      Inl e \<Rightarrow> []
    | Inr rows \<Rightarrow> map (\<lambda>row. (unit_price_usd row, discount_applied row, bundled_issues row)) rows)
   = [(Some 625, Some 10, Some 3)]"
  by code_simp

subsection \<open>Quality score\<close>

















subsection \<open>Priority classification\<close>

text \<open>
  The classifier discards the upstream priority: the label depends on the text only.
  The third label it writes is \<open>MODERATE\<close>.
\<close>

lemma fix_priority_classification_labels:
  "map issue.priority (fix_priority_classification issues) =
     map (\<lambda>i. Some (if is_safety i then ''HIGH''
                      else if is_maintenance i then ''LOW'' else ''MODERATE'')) issues"
  by (simp add: fix_priority_classification_def fix_priority_def)

text \<open>
  C7. An issue whose text has no keyword of either set should become MEDIUM, the middle
  value of the priority vocabulary HIGH, MEDIUM, LOW of the extraction schema; the
  classifier labels it \<open>MODERATE\<close>, a word outside that vocabulary.
\<close>

theorem fix_priority_default_label:
  "map issue.priority
     (fix_priority_classification
        [raw_issue ''Stairs'' ''Loose handrail'' ''Handrail is loose at the landing'' ''HIGH''])
   = [Some ''MODERATE'']"
  by code_simp

subsection \<open>Totals\<close>







end
